theory Spec2Isabelle
  imports Main
begin

section \<open>The argument validators of news_cli.py\<close>

text \<open>
  Python text is modelled as \<open>string\<close>, one \<open>char\<close> for each code point (so the
  model covers the code points below 256), and Python's unbounded integers as \<open>int\<close>.
  An \<open>ArgumentTypeError\<close> is a value: each constructor below is one of the five
  \<open>raise\<close> statements of the source and carries the values that its f-string puts into
  the message.
\<close>

datatype ArgumentTypeError =
    LengthTooLow int nat string
      \<comment> \<open>"Argument length can't be lower than {lower-1} chars but got {len(raw_text)} chars for {raw_text}"\<close>
  | LengthTooHigh int nat string
      \<comment> \<open>"Argument length can't be higher than {upper+1} chars but got {len(raw_text)} chars for {raw_text}"\<close>
  | NotAnInt string
      \<comment> \<open>"Got the following error while converting from str to int: {e}", \<open>e\<close> the ValueError of \<open>int(raw_argument_value)\<close>\<close>
  | ValueTooLow int string
      \<comment> \<open>"value must not be less than {lower-1} but you provided {raw_argument_value}"\<close>
  | ValueTooHigh int string
      \<comment> \<open>"value must not be greater than to {upper+1} but you provided {raw_argument_value}"\<close>

subsection \<open>verify_str_length\<close>

text \<open>
  \<open>inner\<close> is annotated to take a list of strings, but Python does not enforce the
  annotation: the \<open>for\<close> loop iterates over whatever it is given, and argparse hands a
  \<open>type\<close> function one raw string. Both kinds of argument are values of \<open>pyarg\<close>;
  iterating over a string yields its characters, each a string of length one.
\<close>

datatype pyarg = StrList "string list" | Str string

fun iterate :: "pyarg \<Rightarrow> string list" where
  "iterate (StrList xs) = xs"
| "iterate (Str s) = map (\<lambda>c. [c]) s"

text \<open>The \<open>for raw_text in argument_value_list\<close> loop: the first failing check raises.\<close>

fun check_lengths :: "int \<Rightarrow> int \<Rightarrow> string list \<Rightarrow> ArgumentTypeError option" where
  "check_lengths lower upper [] = None"
| "check_lengths lower upper (raw_text # rest) =
     (if int (length raw_text) \<le> lower
        then Some (LengthTooLow (lower - 1) (length raw_text) raw_text)
      else if int (length raw_text) \<ge> upper
        then Some (LengthTooHigh (upper + 1) (length raw_text) raw_text)
      else check_lengths lower upper rest)"

definition verify_str_length :: "int \<Rightarrow> int \<Rightarrow> pyarg \<Rightarrow> ArgumentTypeError + pyarg" where
  "verify_str_length lower upper argument_value_list =
     (case check_lengths lower upper (iterate argument_value_list) of
        Some e \<Rightarrow> Inl e
      | None \<Rightarrow> Inr argument_value_list)"

subsection \<open>Python's int() on text\<close>

text \<open>
  \<open>int(s)\<close> in base 10: white space around the literal is dropped (tab, line feed,
  vertical tab, form feed, carriage return, space, and of the code points from 128 on
  NEL and the no-break space), then an optional sign, then decimal digits, where
  single underscores may separate digits. Anything else is a \<open>ValueError\<close>, here
  \<open>None\<close>. (The interpreter's limit on the number of digits of a literal, 4300 by
  default in recent versions, is not modelled: such a text converts here.)
\<close>

definition py_isspace :: "char \<Rightarrow> bool" where
  "py_isspace c = (of_char c \<in> {9, 10, 11, 12, 13, 32, 133, 160 :: nat})"

definition strip :: "string \<Rightarrow> string" where
  "strip s = rev (dropWhile py_isspace (rev (dropWhile py_isspace s)))"

definition digit_value :: "char \<Rightarrow> nat option" where
  "digit_value c =
     (let n = (of_char c :: nat) in if 48 \<le> n \<and> n \<le> 57 then Some (n - 48) else None)"

fun more_digits :: "nat \<Rightarrow> string \<Rightarrow> nat option" where
  "more_digits acc [] = Some acc"
| "more_digits acc [c] =
     (case digit_value c of None \<Rightarrow> None | Some v \<Rightarrow> Some (10 * acc + v))"
| "more_digits acc (c # d # rest) =
     (if c = CHR ''_''
        then (case digit_value d of None \<Rightarrow> None | Some v \<Rightarrow> more_digits (10 * acc + v) rest)
      else (case digit_value c of None \<Rightarrow> None | Some v \<Rightarrow> more_digits (10 * acc + v) (d # rest)))"

definition digits :: "string \<Rightarrow> nat option" where
  "digits s =
     (case s of
        [] \<Rightarrow> None
      | c # rest \<Rightarrow> (case digit_value c of None \<Rightarrow> None | Some v \<Rightarrow> more_digits v rest))"

definition py_int :: "string \<Rightarrow> int option" where
  "py_int s =
     (case strip s of
        [] \<Rightarrow> None
      | c # rest \<Rightarrow>
          if c = CHR ''-'' then map_option (\<lambda>n. - int n) (digits rest)
          else if c = CHR ''+'' then map_option int (digits rest)
          else map_option int (digits (c # rest)))"

subsection \<open>verify_int_range\<close>

definition verify_int_range :: "int \<Rightarrow> int \<Rightarrow> string \<Rightarrow> ArgumentTypeError + int" where
  "verify_int_range lower upper raw_argument_value =
     (case py_int raw_argument_value of
        None \<Rightarrow> Inl (NotAnInt raw_argument_value)
      | Some count \<Rightarrow>
          if count \<le> lower then Inl (ValueTooLow (lower - 1) raw_argument_value)
          else if count \<ge> upper then Inl (ValueTooHigh (upper + 1) raw_argument_value)
          else Inr count)"

subsection \<open>Python's str() on integers\<close>

definition digit_char :: "nat \<Rightarrow> char" where
  "digit_char d = char_of (48 + d)"

fun str_nat :: "nat \<Rightarrow> string" where
  "str_nat n = (if n < 10 then [digit_char n] else str_nat (n div 10) @ [digit_char (n mod 10)])"

definition str_int :: "int \<Rightarrow> string" where
  "str_int i = (if i < 0 then CHR ''-'' # str_nat (nat (- i)) else str_nat (nat i))"

section \<open>The parser built by create_parser\<close>

text \<open>
  \<open>create_parser\<close> declares four options on an \<open>ArgumentParser\<close>, which adds
  \<open>-h/--help\<close> itself:
  \<^item> \<open>--topic/-t\<close>, action \<open>append\<close>, type \<open>verify_str_length()\<close>, required;
  \<^item> \<open>--version/-v\<close>, action \<open>version\<close>;
  \<^item> \<open>--article_count/-c\<close>, action \<open>store\<close>, type \<open>verify_int_range()\<close>, default 10;
  \<^item> \<open>--timeout\<close>, action \<open>store\<close>, type \<open>verify_int_range(upper=60)\<close>, default 10.

  The namespace starts from the declared defaults (\<open>None\<close> for \<open>topic\<close>, which
  declares none); a default that is not a string is not passed through the option's
  \<open>type\<close> function.
\<close>

datatype action = Help | Topic | Version | ArticleCount | Timeout

definition option_string_actions :: "string \<Rightarrow> action option" where
  "option_string_actions s =
     (if s = ''-h'' \<or> s = ''--help'' then Some Help
      else if s = ''--topic'' \<or> s = ''-t'' then Some Topic
      else if s = ''--version'' \<or> s = ''-v'' then Some Version
      else if s = ''--article_count'' \<or> s = ''-c'' then Some ArticleCount
      else if s = ''--timeout'' then Some Timeout
      else None)"

record Namespace =
  topic :: "pyarg list option"
  article_count :: int
  timeout :: int

definition defaults :: Namespace where
  "defaults = \<lparr>topic = None, article_count = 10, timeout = 10\<rparr>"

text \<open>
  The \<open>type\<close> function of each option that takes a value, applied to the raw string of
  the command line, and the option's action on the namespace: \<open>append\<close> for
  \<open>--topic\<close> (to a copy of the list so far, the empty list at first), \<open>store\<close> for
  the other two.
\<close>

fun take_value :: "action \<Rightarrow> string \<Rightarrow> Namespace \<Rightarrow> ArgumentTypeError + Namespace" where
  "take_value Topic arg_string ns =
     (case verify_str_length 0 255 (Str arg_string) of
        Inl e \<Rightarrow> Inl e
      | Inr v \<Rightarrow> Inr (ns\<lparr>topic := Some ((case topic ns of None \<Rightarrow> [] | Some items \<Rightarrow> items) @ [v])\<rparr>))"
| "take_value ArticleCount arg_string ns =
     (case verify_int_range 0 10 arg_string of
        Inl e \<Rightarrow> Inl e
      | Inr v \<Rightarrow> Inr (ns\<lparr>article_count := v\<rparr>))"
| "take_value Timeout arg_string ns =
     (case verify_int_range 0 60 arg_string of
        Inl e \<Rightarrow> Inl e
      | Inr v \<Rightarrow> Inr (ns\<lparr>timeout := v\<rparr>))"
| "take_value _ arg_string ns = Inr ns"

subsection \<open>argparse on the command line\<close>

text \<open>
  The library's \<open>parse_args\<close> is modelled on the command lines in which every element
  is either one of the declared option strings, written out in full, or an argument:
  the empty string, a string that does not start with \<open>-\<close>, the string \<open>-\<close>, or a
  negative number written as \<open>-\<close> and decimal digits. On every other command line
  (abbreviated options, \<open>--opt=value\<close>, \<open>-cVALUE\<close>, \<open>--\<close>, unknown options)
  the model gives no outcome, \<open>None\<close>.

  On the modelled command lines argparse goes from left to right: an option that takes
  a value needs an argument as the next element, converts it with its \<open>type\<close>
  function and runs its action; \<open>--version\<close> and \<open>--help\<close> print and leave at
  once; an argument that belongs to no option is set aside. At the end a missing
  required option is reported first, then the arguments set aside. Every error prints
  the usage and the message to the error stream and leaves with status 2.
\<close>

definition is_digit :: "char \<Rightarrow> bool" where
  "is_digit c = (case digit_value c of None \<Rightarrow> False | Some _ \<Rightarrow> True)"

definition is_argument :: "string \<Rightarrow> bool" where
  "is_argument s =
     (case s of
        [] \<Rightarrow> True
      | c # rest \<Rightarrow> if c = CHR ''-'' then list_all is_digit rest else True)"

definition modelled :: "string \<Rightarrow> bool" where
  "modelled s = (case option_string_actions s of Some _ \<Rightarrow> True | None \<Rightarrow> is_argument s)"

datatype ArgumentError =
    ExpectedOneArgument action
      \<comment> \<open>"argument ...: expected one argument"\<close>
  | InvalidValue action ArgumentTypeError
      \<comment> \<open>"argument ...: " and the message of the error raised by the type function\<close>
  | RequiredMissing
      \<comment> \<open>"the following arguments are required: --topic/-t"\<close>
  | UnrecognizedArguments "string list"
      \<comment> \<open>"unrecognized arguments: ..."\<close>

datatype outcome =
    Parsed Namespace
  | PrintedVersion
  | PrintedHelp
  | Failed ArgumentError

fun consume :: "Namespace \<Rightarrow> string list \<Rightarrow> string list \<Rightarrow> outcome" where
  "consume ns extras [] =
     (case topic ns of
        None \<Rightarrow> Failed RequiredMissing
      | Some _ \<Rightarrow> if extras = [] then Parsed ns else Failed (UnrecognizedArguments extras))"
| "consume ns extras (a # rest) =
     (case option_string_actions a of
        None \<Rightarrow> consume ns (extras @ [a]) rest
      | Some Version \<Rightarrow> PrintedVersion
      | Some Help \<Rightarrow> PrintedHelp
      | Some act \<Rightarrow>
          (case rest of
             [] \<Rightarrow> Failed (ExpectedOneArgument act)
           | arg_string # rest' \<Rightarrow>
               (case option_string_actions arg_string of
                  Some _ \<Rightarrow> Failed (ExpectedOneArgument act)
                | None \<Rightarrow>
                    (case take_value act arg_string ns of
                       Inl e \<Rightarrow> Failed (InvalidValue act e)
                     | Inr ns' \<Rightarrow> consume ns' extras rest'))))"

definition parse_args :: "string list \<Rightarrow> outcome option" where
  "parse_args args = (if list_all modelled args then Some (consume defaults [] args) else None)"

section \<open>The main routine\<close>

text \<open>
  What \<open>main\<close> does to the world is the list of its effects, in order, and the exit
  status of the process. The world it reads is the command line, the environment (a
  map from names to values) and the server, a function from the request to what comes
  back: no response at all (\<open>requests.get\<close> raises), or a response with a status code
  and a body that decodes to JSON data or does not. An exception that nothing catches
  ends the process with a traceback on the error stream and status 1.
\<close>

datatype exn =
    TypeError
  | RequestException
  | HTTPError nat
  | JSONDecodeError

datatype 'j reply = NoResponse | Response nat "'j option"

datatype 'j event =
    PrintArgs Namespace
      \<comment> \<open>standard output: "args are " and the namespace\<close>
  | PrintData 'j
      \<comment> \<open>standard output: \<open>pprint(data)\<close>\<close>
  | PrintVersion
      \<comment> \<open>standard output: "News Crawler 1.0"\<close>
  | PrintHelp
  | ErrMessage string
      \<comment> \<open>error stream: \<open>print(..., file=stderr)\<close>\<close>
  | ErrUsage ArgumentError
      \<comment> \<open>error stream: usage and message of an argparse error\<close>
  | ErrTraceback exn
  | Get string "(string \<times> string) list" "int option"
      \<comment> \<open>\<open>requests.get\<close>: url, params, and the timeout (\<open>None\<close> when the call passes none)\<close>

definition BASE_URL :: string where
  "BASE_URL = ''https://gnews.io/api/v4/search''"

definition no_key_message :: string where
  \<open>no_key_message =
     [CHR 0x0A] @ ''              No API key "NEWS_KEY" set in the environment.'' @
     [CHR 0x0A] @ ''              Go to # https://gnews.io/ to get your key.'' @
     [CHR 0x0A] @ ''              Exiting...''\<close>

text \<open>\<open>" ".join(list(args.topic))\<close>: a \<open>TypeError\<close> unless \<open>topic\<close> is a list of strings.\<close>

fun join :: "string \<Rightarrow> pyarg list \<Rightarrow> string option" where
  "join sep [] = Some []"
| "join sep [Str s] = Some s"
| "join sep (Str s # rest) = (case join sep rest of None \<Rightarrow> None | Some r \<Rightarrow> Some (s @ sep @ r))"
| "join sep (StrList _ # rest) = None"

definition run :: "Namespace \<Rightarrow> (string \<rightharpoonup> string) \<Rightarrow> ('j event \<Rightarrow> 'j reply) \<Rightarrow> 'j event list \<times> nat" where
  "run args environ server =
     (case environ ''NEWS_KEY'' of
        None \<Rightarrow> ([PrintArgs args, ErrMessage no_key_message], 22)
      | Some key \<Rightarrow>
          (case (case topic args of None \<Rightarrow> None | Some items \<Rightarrow> join '' '' items) of
             None \<Rightarrow> ([PrintArgs args, ErrTraceback TypeError], 1)
           | Some query \<Rightarrow>
               (let payload = [(''q'', query), (''lang'', ''en''), (''country'', ''us''),
                               (''max'', str_int (article_count args)), (''apikey'', key)];
                    request = Get BASE_URL payload None
                in case server request of
                     NoResponse \<Rightarrow> ([PrintArgs args, request, ErrTraceback RequestException], 1)
                   | Response status_code body \<Rightarrow>
                       if 400 \<le> status_code \<and> status_code < 600
                         then ([PrintArgs args, request, ErrTraceback (HTTPError status_code)], 1)
                       else (case body of
                               None \<Rightarrow> ([PrintArgs args, request, ErrTraceback JSONDecodeError], 1)
                             | Some data \<Rightarrow> ([PrintArgs args, request, PrintData data], 0)))))"

definition main :: "string list \<Rightarrow> (string \<rightharpoonup> string) \<Rightarrow> ('j event \<Rightarrow> 'j reply) \<Rightarrow> ('j event list \<times> nat) option" where
  "main argv environ server =
     (case parse_args argv of
        None \<Rightarrow> None
      | Some (Failed e) \<Rightarrow> Some ([ErrUsage e], 2)
      | Some PrintedVersion \<Rightarrow> Some ([PrintVersion], 0)
      | Some PrintedHelp \<Rightarrow> Some ([PrintHelp], 0)
      | Some (Parsed args) \<Rightarrow> Some (run args environ server))"

fun is_get :: "'j event \<Rightarrow> bool" where
  "is_get (Get _ _ _) = True"
| "is_get _ = False"


text \<open>The effects of a run that go to standard output.\<close>

fun on_stdout :: "'j event \<Rightarrow> bool" where
  "on_stdout (PrintArgs _) = True"
| "on_stdout (PrintData _) = True"
| "on_stdout PrintVersion = True"
| "on_stdout PrintHelp = True"
| "on_stdout _ = False"

text \<open>Whether the parser accepted the command line.\<close>

fun is_parsed :: "outcome option \<Rightarrow> bool" where
  "is_parsed (Some (Parsed _)) = True"
| "is_parsed _ = False"

declare str_nat.simps [simp del]

section \<open>Decimal texts\<close>

text \<open>
  The text that \<open>str\<close> gives for an integer converts back to that integer with
  \<open>int\<close>, and as an element of the command line it is an argument, not an option.
\<close>

lemma digit_value_digit_char: "d < 10 \<Longrightarrow> digit_value (digit_char d) = Some d"
  by (simp add: digit_value_def digit_char_def)

lemma is_digit_digit_char: "d < 10 \<Longrightarrow> is_digit (digit_char d)"
  by (simp add: is_digit_def digit_value_digit_char)

lemma is_digit_not_underscore: "is_digit c \<Longrightarrow> c \<noteq> CHR ''_''"
  by (auto simp: is_digit_def digit_value_def)

lemma is_digit_not_space: "is_digit c \<Longrightarrow> \<not> py_isspace c"
  by (auto simp: is_digit_def digit_value_def py_isspace_def Let_def split: if_splits)

lemma is_digit_not_sign: "is_digit c \<Longrightarrow> c \<noteq> CHR ''-'' \<and> c \<noteq> CHR ''+''"
  by (auto simp: is_digit_def digit_value_def)

lemma more_digits_snoc:
  "list_all is_digit ds \<Longrightarrow> d < 10 \<Longrightarrow>
   more_digits acc (ds @ [digit_char d]) = map_option (\<lambda>v. 10 * v + d) (more_digits acc ds)"
proof (induction acc ds rule: more_digits.induct)
  case (1 acc)
  then show ?case by (simp add: digit_value_digit_char)
next
  case (2 acc c)
  then have c: "c \<noteq> CHR ''_''" by (simp add: is_digit_not_underscore)
  from 2 obtain v where v: "digit_value c = Some v" by (auto simp: is_digit_def split: option.splits)
  show ?case using c v 2 by (simp add: digit_value_digit_char)
next
  case (3 acc c e rest)
  then have c: "c \<noteq> CHR ''_''" by (simp add: is_digit_not_underscore)
  from 3 obtain v where v: "digit_value c = Some v" by (auto simp: is_digit_def split: option.splits)
  have "more_digits (10 * acc + v) ((e # rest) @ [digit_char d]) =
        map_option (\<lambda>v. 10 * v + d) (more_digits (10 * acc + v) (e # rest))"
    using 3 c v by simp
  then show ?case using c v by simp
qed

lemma str_nat_digits: "list_all is_digit (str_nat n)"
proof (induction n rule: str_nat.induct)
  case (1 n)
  show ?case
  proof (cases "n < 10")
    case True
    then show ?thesis by (subst str_nat.simps) (simp add: is_digit_digit_char)
  next
    case False
    then show ?thesis using 1 by (subst str_nat.simps) (simp add: is_digit_digit_char)
  qed
qed

lemma str_nat_not_Nil: "str_nat n \<noteq> []"
  by (subst str_nat.simps) simp

lemma digits_snoc:
  assumes "s \<noteq> []" "list_all is_digit s" "d < 10"
  shows "digits (s @ [digit_char d]) = map_option (\<lambda>v. 10 * v + d) (digits s)"
proof -
  from assms(1) obtain c rest where s: "s = c # rest" by (cases s) auto
  with assms(2) obtain v where v: "digit_value c = Some v"
    by (auto simp: is_digit_def split: option.splits)
  show ?thesis using assms s v by (simp add: digits_def more_digits_snoc)
qed

lemma digits_str_nat: "digits (str_nat n) = Some n"
proof (induction n rule: str_nat.induct)
  case (1 n)
  show ?case
  proof (cases "n < 10")
    case True
    then show ?thesis
      by (subst str_nat.simps) (simp add: digits_def digit_value_digit_char)
  next
    case False
    then have "digits (str_nat (n div 10) @ [digit_char (n mod 10)]) = Some n"
      using 1 by (simp add: digits_snoc str_nat_not_Nil str_nat_digits)
    then show ?thesis using False by (subst str_nat.simps) simp
  qed
qed

lemma strip_id:
  assumes "s \<noteq> []" "\<not> py_isspace (hd s)" "\<not> py_isspace (last s)"
  shows "strip s = s"
proof -
  from assms have a: "dropWhile py_isspace s = s" by (cases s) auto
  from assms have "dropWhile py_isspace (rev s) = rev s"
    by (cases "rev s") (auto simp: last_rev hd_rev[symmetric])
  then show ?thesis by (simp add: strip_def a)
qed

lemma hd_str_nat: "is_digit (hd (str_nat n))"
  using str_nat_digits[of n] str_nat_not_Nil[of n] by (cases "str_nat n") auto

lemma last_str_nat: "is_digit (last (str_nat n))"
  using str_nat_digits[of n] str_nat_not_Nil[of n]
  by (metis list_all_iff last_in_set)

lemma py_int_str_int: "py_int (str_int i) = Some i"
proof (cases "i < 0")
  case True
  have minus: "\<not> py_isspace CHR ''-''" by (simp add: py_isspace_def)
  have "strip (CHR ''-'' # str_nat (nat (- i))) = CHR ''-'' # str_nat (nat (- i))"
    using last_str_nat[of "nat (- i)"] str_nat_not_Nil[of "nat (- i)"] minus
    by (intro strip_id) (simp_all add: is_digit_not_space)
  then show ?thesis using True by (simp add: py_int_def str_int_def digits_str_nat)
next
  case False
  obtain c rest where s: "str_nat (nat i) = c # rest"
    using str_nat_not_Nil[of "nat i"] by (cases "str_nat (nat i)") auto
  have c: "is_digit c" using hd_str_nat[of "nat i"] s by simp
  have "strip (str_nat (nat i)) = str_nat (nat i)"
    using last_str_nat[of "nat i"] hd_str_nat[of "nat i"] str_nat_not_Nil[of "nat i"]
    by (intro strip_id) (auto simp: is_digit_not_space)
  moreover have "digits (c # rest) = Some (nat i)" using digits_str_nat[of "nat i"] s by simp
  ultimately show ?thesis using False s is_digit_not_sign[OF c]
    by (simp add: py_int_def str_int_def)
qed

lemma is_argument_str_int: "is_argument (str_int i)"
proof (cases "i < 0")
  case True
  then show ?thesis by (simp add: is_argument_def str_int_def str_nat_digits)
next
  case False
  obtain c rest where s: "str_nat (nat i) = c # rest"
    using str_nat_not_Nil[of "nat i"] by (cases "str_nat (nat i)") auto
  have "is_digit c" using hd_str_nat[of "nat i"] s by simp
  then have "c \<noteq> CHR ''-''" by (simp add: is_digit_not_sign)
  then show ?thesis using False s by (simp add: is_argument_def str_int_def)
qed

lemma option_string_actions_str_int: "option_string_actions (str_int i) = None"
proof -
  have "str_int i \<noteq> [] \<and> is_digit (last (str_int i))"
    using last_str_nat str_nat_not_Nil by (auto simp: str_int_def)
  then show ?thesis
    by (auto simp: option_string_actions_def is_digit_def digit_value_def split: if_splits)
qed

section \<open>Contracts of the validators\<close>

lemma check_lengths_None:
  "check_lengths L U xs = None \<longleftrightarrow> (\<forall>s \<in> set xs. L < int (length s) \<and> int (length s) < U)"
  by (induction xs) auto

lemma check_lengths_Some:
  "check_lengths L U xs = Some e \<Longrightarrow>
   \<exists>s \<in> set xs. (int (length s) \<le> L \<and> e = LengthTooLow (L - 1) (length s) s) \<or>
                 (U \<le> int (length s) \<and> e = LengthTooHigh (U + 1) (length s) s)"
  by (induction xs) (auto split: if_splits)

text \<open>
  C1. For every list of strings and all bounds \<open>L\<close> and \<open>U\<close> (so also for the
  defaults 0 and 255), the string-length validator returns the list it was given,
  unchanged, when the length of every string is strictly greater than \<open>L\<close> and
  strictly less than \<open>U\<close>; otherwise it fails with an error that carries a string of
  the list whose length is out of bounds, and says which bound that length violates
  (the message shows \<open>L - 1\<close> for the lower and \<open>U + 1\<close> for the upper bound).
  The validator is a function of its arguments: it has no other effect.
\<close>

theorem verify_str_length_list:
  "if \<forall>s \<in> set xs. L < int (length s) \<and> int (length s) < U
   then verify_str_length L U (StrList xs) = Inr (StrList xs)
   else \<exists>s \<in> set xs.
          (int (length s) \<le> L \<and>
             verify_str_length L U (StrList xs) = Inl (LengthTooLow (L - 1) (length s) s)) \<or>
          (U \<le> int (length s) \<and>
             verify_str_length L U (StrList xs) = Inl (LengthTooHigh (U + 1) (length s) s))"
proof (cases "check_lengths L U xs")
  case None
  then have "\<forall>s \<in> set xs. L < int (length s) \<and> int (length s) < U"
    using check_lengths_None[of L U xs] by simp
  moreover have "verify_str_length L U (StrList xs) = Inr (StrList xs)"
    using None by (simp add: verify_str_length_def)
  ultimately show ?thesis by simp
next
  case (Some e)
  then have "\<not> (\<forall>s \<in> set xs. L < int (length s) \<and> int (length s) < U)"
    using check_lengths_None[of L U xs] by simp
  moreover have "verify_str_length L U (StrList xs) = Inl e"
    using Some by (simp add: verify_str_length_def)
  ultimately show ?thesis using check_lengths_Some[OF Some] by auto
qed

theorem verify_str_length_list_witness:
  "verify_str_length 0 255 (StrList [''ab'', ''c'']) = Inr (StrList [''ab'', ''c'']) \<and>
   verify_str_length 0 255 (StrList [''ab'', '''', ''c'']) = Inl (LengthTooLow (- 1) 0 '''') \<and>
   verify_str_length 0 3 (StrList [''ab'', ''abc'']) = Inl (LengthTooHigh 4 3 ''abc'')"
  using verify_str_length_list [of "[''ab'', ''c'']" 0 255]
    verify_str_length_list [of "[''ab'', '''', ''c'']" 0 255]
    verify_str_length_list [of "[''ab'', ''abc'']" 0 3]
  by (simp add: verify_str_length_def)

text \<open>
  C2. For every text \<open>t\<close> and all bounds \<open>L\<close> and \<open>U\<close> (so also for the defaults
  0 and 10), the integer-range validator fails exactly when \<open>t\<close> does not convert to
  an integer, or converts to an integer \<open>n\<close> with \<open>n \<le> L\<close> or \<open>n \<ge> U\<close>;
  otherwise it returns \<open>n\<close>.
\<close>

theorem verify_int_range_contract:
  "((\<exists>e. verify_int_range L U t = Inl e) \<longleftrightarrow>
      py_int t = None \<or> (\<exists>n. py_int t = Some n \<and> (n \<le> L \<or> U \<le> n))) \<and>
   (verify_int_range L U t = Inr n \<longleftrightarrow> py_int t = Some n \<and> L < n \<and> n < U)"
  by (auto simp: verify_int_range_def split: option.splits)

theorem verify_int_range_contract_witness:
  "verify_int_range 0 10 ''5'' = Inr 5 \<and> py_int ''5'' = Some 5 \<and>
   (\<exists>e. verify_int_range 0 10 ''1a'' = Inl e) \<and> py_int ''1a'' = None \<and>
   (\<exists>e. verify_int_range 0 10 ''10'' = Inl e) \<and> py_int ''10'' = Some 10"
proof -
  have a: "py_int ''5'' = Some 5" by code_simp
  have b: "py_int ''1a'' = None" by code_simp
  have c: "py_int ''10'' = Some 10" by code_simp
  show ?thesis
    using verify_int_range_contract [of 0 10 "''5''" 5]
      verify_int_range_contract [of 0 10 "''1a''"]
      verify_int_range_contract [of 0 10 "''10''"] a b c
    by simp
qed


section \<open>Parsing command lines\<close>

subsection \<open>Topics\<close>

text \<open>
  argparse gives the \<open>type\<close> function of \<open>--topic\<close> the raw string of one topic, so
  the loop of the validator runs over its characters, each of length one, which lies
  strictly between 0 and 255: no topic is refused for its length.
\<close>

lemma check_lengths_chars: "check_lengths 0 255 (map (\<lambda>c. [c]) s) = None"
  by (induction s) auto

lemma verify_str_length_Str: "verify_str_length 0 255 (Str s) = Inr (Str s)"
  by (simp add: verify_str_length_def check_lengths_chars)

lemma parse_args_one_topic:
  assumes "option_string_actions s = None" "is_argument s"
  shows "parse_args [''-t'', s] =
         Some (Parsed \<lparr>topic = Some [Str s], article_count = 10, timeout = 10\<rparr>)"
  using assms
  by (simp add: parse_args_def modelled_def option_string_actions_def defaults_def
      verify_str_length_Str)

text \<open>
  C3. The claim: a value of \<open>--topic/-t\<close> is accepted if and only if its length is
  between 1 and 254; a topic of length 0, or of length 255 or more, makes the parser
  fail. The parser does otherwise: the empty topic and a topic of 255 characters are
  both accepted and stored.
\<close>

theorem topic_length_not_checked:
  "parse_args [''-t'', ''''] =
     Some (Parsed \<lparr>topic = Some [Str ''''], article_count = 10, timeout = 10\<rparr>) \<and>
   length (CHR ''a'' # replicate 254 CHR ''a'') = 255 \<and>
   parse_args [''-t'', CHR ''a'' # replicate 254 CHR ''a''] =
     Some (Parsed \<lparr>topic = Some [Str (CHR ''a'' # replicate 254 CHR ''a'')],
                   article_count = 10, timeout = 10\<rparr>)"
proof -
  have "option_string_actions '''' = None" "is_argument ''''"
    by (simp_all add: option_string_actions_def is_argument_def)
  moreover have "option_string_actions (CHR ''a'' # replicate 254 CHR ''a'') = None"
    "is_argument (CHR ''a'' # replicate 254 CHR ''a'')"
    by (simp_all add: option_string_actions_def is_argument_def)
  ultimately show ?thesis by (simp add: parse_args_one_topic)
qed

subsection \<open>Integers on the command line\<close>

lemma verify_int_range_str_int:
  "verify_int_range L U (str_int n) =
     (if n \<le> L then Inl (ValueTooLow (L - 1) (str_int n))
      else if U \<le> n then Inl (ValueTooHigh (U + 1) (str_int n))
      else Inr n)"
  by (simp add: verify_int_range_def py_int_str_int)

lemma modelled_str_int: "modelled (str_int n)"
  by (simp add: modelled_def option_string_actions_str_int is_argument_str_int)

lemma consume_topic:
  "option_string_actions v = None \<Longrightarrow>
   consume ns extras (''-t'' # v # rest) =
   consume (ns\<lparr>topic := Some ((case topic ns of None \<Rightarrow> [] | Some items \<Rightarrow> items) @ [Str v])\<rparr>)
     extras rest"
  by (simp add: option_string_actions_def verify_str_length_Str)

lemma consume_count:
  "consume ns extras (''-c'' # str_int n # rest) =
     (if n \<le> 0 then Failed (InvalidValue ArticleCount (ValueTooLow (- 1) (str_int n)))
      else if 10 \<le> n then Failed (InvalidValue ArticleCount (ValueTooHigh 11 (str_int n)))
      else consume (ns\<lparr>article_count := n\<rparr>) extras rest)"
proof -
  have "option_string_actions ''-c'' = Some ArticleCount"
    by (simp add: option_string_actions_def)
  then show ?thesis
    by (simp add: option_string_actions_str_int verify_int_range_str_int)
qed

lemma consume_timeout:
  "consume ns extras (''--timeout'' # str_int n # rest) =
     (if n \<le> 0 then Failed (InvalidValue Timeout (ValueTooLow (- 1) (str_int n)))
      else if 60 \<le> n then Failed (InvalidValue Timeout (ValueTooHigh 61 (str_int n)))
      else consume (ns\<lparr>timeout := n\<rparr>) extras rest)"
proof -
  have "option_string_actions ''--timeout'' = Some Timeout"
    by (simp add: option_string_actions_def)
  then show ?thesis
    by (simp add: option_string_actions_str_int verify_int_range_str_int)
qed

lemma modelled_options: "modelled ''-t''" "modelled ''test''" "modelled ''-c''" "modelled ''--timeout''"
  by (simp_all add: option_string_actions_def modelled_def is_argument_def)

lemma test_not_option: "option_string_actions ''test'' = None"
  by (simp add: option_string_actions_def)

lemma parse_count:
  "parse_args [''-t'', ''test'', ''-c'', str_int n] =
     Some (if n \<le> 0 then Failed (InvalidValue ArticleCount (ValueTooLow (- 1) (str_int n)))
           else if 10 \<le> n then Failed (InvalidValue ArticleCount (ValueTooHigh 11 (str_int n)))
           else Parsed \<lparr>topic = Some [Str ''test''], article_count = n, timeout = 10\<rparr>)"
  by (simp add: parse_args_def modelled_options modelled_str_int test_not_option
      consume_topic consume_count defaults_def del: consume.simps(2))

lemma parse_timeout:
  "parse_args [''-t'', ''test'', ''--timeout'', str_int n] =
     Some (if n \<le> 0 then Failed (InvalidValue Timeout (ValueTooLow (- 1) (str_int n)))
           else if 60 \<le> n then Failed (InvalidValue Timeout (ValueTooHigh 61 (str_int n)))
           else Parsed \<lparr>topic = Some [Str ''test''], article_count = 10, timeout = n\<rparr>)"
  by (simp add: parse_args_def modelled_options modelled_str_int test_not_option
      consume_topic consume_timeout defaults_def del: consume.simps(2))

lemma str_int_examples:
  "str_int 1 = ''1''" "str_int 5 = ''5''" "str_int 10 = ''10''" "str_int 24 = ''24''"
  "str_int 61 = ''61''" "str_int 1000 = ''1000''" "str_int (- 200) = ''-200''"
  by code_simp+

text \<open>
  C4, as claimed: an integer \<open>n\<close> given as \<open>--article_count/-c\<close> is accepted if and
  only if \<open>2 \<le> n \<le> 24\<close>. It is not so: 1 is accepted, and 24 is refused.
\<close>

theorem count_2_to_24_counterexample:
  "\<not> (is_parsed (parse_args [''-t'', ''test'', ''-c'', ''1'']) \<longleftrightarrow> 2 \<le> (1::int) \<and> (1::int) \<le> 24) \<and>
   \<not> (is_parsed (parse_args [''-t'', ''test'', ''-c'', ''24'']) \<longleftrightarrow> 2 \<le> (24::int) \<and> (24::int) \<le> 24)"
  using parse_count [of 1] parse_count [of 24] by (simp add: str_int_examples)

text \<open>
  C4, amended. An integer \<open>n\<close> given as \<open>--article_count/-c\<close> is accepted, and is
  the parsed article count, whenever \<open>1 \<le> n \<le> 9\<close>; it is refused whenever
  \<open>n \<le> 0\<close> or \<open>n \<ge> 11\<close>.
\<close>

theorem count_accepted_1_to_9:
  "(1 \<le> n \<and> n \<le> 9 \<longrightarrow>
      parse_args [''-t'', ''test'', ''-c'', str_int n] =
        Some (Parsed \<lparr>topic = Some [Str ''test''], article_count = n, timeout = 10\<rparr>)) \<and>
   (n \<le> 0 \<longrightarrow>
      parse_args [''-t'', ''test'', ''-c'', str_int n] =
        Some (Failed (InvalidValue ArticleCount (ValueTooLow (- 1) (str_int n))))) \<and>
   (11 \<le> n \<longrightarrow>
      parse_args [''-t'', ''test'', ''-c'', str_int n] =
        Some (Failed (InvalidValue ArticleCount (ValueTooHigh 11 (str_int n)))))"
  by (simp add: parse_count)

theorem count_accepted_1_to_9_witness:
  "parse_args [''-t'', ''test'', ''-c'', ''1''] =
     Some (Parsed \<lparr>topic = Some [Str ''test''], article_count = 1, timeout = 10\<rparr>) \<and>
   parse_args [''-t'', ''test'', ''-c'', ''-200''] =
     Some (Failed (InvalidValue ArticleCount (ValueTooLow (- 1) ''-200''))) \<and>
   parse_args [''-t'', ''test'', ''-c'', ''24''] =
     Some (Failed (InvalidValue ArticleCount (ValueTooHigh 11 ''24'')))"
  using count_accepted_1_to_9 [of 1] count_accepted_1_to_9 [of "- 200"]
    count_accepted_1_to_9 [of 24]
  by (simp add: str_int_examples)

text \<open>
  C5. An integer \<open>t\<close> given as \<open>--timeout\<close> is accepted, and is the parsed
  timeout, if and only if \<open>1 \<le> t \<le> 59\<close>; in particular 61, 1000 and -200 are
  all refused.
\<close>

theorem timeout_accepted_1_to_59:
  "parse_args [''-t'', ''test'', ''--timeout'', str_int n] =
     Some (if 1 \<le> n \<and> n \<le> 59
           then Parsed \<lparr>topic = Some [Str ''test''], article_count = 10, timeout = n\<rparr>
           else Failed (InvalidValue Timeout
                  (if n \<le> 0 then ValueTooLow (- 1) (str_int n) else ValueTooHigh 61 (str_int n)))) \<and>
   parse_args [''-t'', ''test'', ''--timeout'', ''61''] =
     Some (Failed (InvalidValue Timeout (ValueTooHigh 61 ''61''))) \<and>
   parse_args [''-t'', ''test'', ''--timeout'', ''1000''] =
     Some (Failed (InvalidValue Timeout (ValueTooHigh 61 ''1000''))) \<and>
   parse_args [''-t'', ''test'', ''--timeout'', ''-200''] =
     Some (Failed (InvalidValue Timeout (ValueTooLow (- 1) ''-200'')))"
  using parse_timeout [of 61] parse_timeout [of 1000] parse_timeout [of "- 200"]
  by (auto simp: parse_timeout str_int_examples)

theorem timeout_accepted_1_to_59_witness:
  "parse_args [''-t'', ''test'', ''--timeout'', ''1''] =
     Some (Parsed \<lparr>topic = Some [Str ''test''], article_count = 10, timeout = 1\<rparr>) \<and>
   parse_args [''-t'', ''test'', ''--timeout'', ''59''] =
     Some (Parsed \<lparr>topic = Some [Str ''test''], article_count = 10, timeout = 59\<rparr>) \<and>
   parse_args [''-t'', ''test'', ''--timeout'', ''60''] =
     Some (Failed (InvalidValue Timeout (ValueTooHigh 61 ''60''))) \<and>
   parse_args [''-t'', ''test'', ''--timeout'', ''0''] =
     Some (Failed (InvalidValue Timeout (ValueTooLow (- 1) ''0'')))"
proof -
  have s: "str_int 1 = ''1''" "str_int 59 = ''59''" "str_int 60 = ''60''" "str_int 0 = ''0''"
    by code_simp+
  show ?thesis
    using timeout_accepted_1_to_59 [of 1] timeout_accepted_1_to_59 [of 59]
      timeout_accepted_1_to_59 [of 60] timeout_accepted_1_to_59 [of 0]
    by (simp add: s)
qed

text \<open>
  C8. Parsing \<open>-t test -c 1\<close> succeeds with article count 1, topic \<open>["test"]\<close> and
  the default timeout 10, and parsing \<open>-t test -c 5\<close> gives article count 5.
\<close>

theorem count_1_and_5_parse:
  "parse_args [''-t'', ''test'', ''-c'', ''1''] =
     Some (Parsed \<lparr>topic = Some [Str ''test''], article_count = 1, timeout = 10\<rparr>) \<and>
   parse_args [''-t'', ''test'', ''-c'', ''5''] =
     Some (Parsed \<lparr>topic = Some [Str ''test''], article_count = 5, timeout = 10\<rparr>)"
  using parse_count [of 1] parse_count [of 5] by (simp add: str_int_examples)

subsection \<open>The default article count\<close>

text \<open>An option other than \<open>--article_count/-c\<close> leaves the article count as it is.\<close>

lemma take_value_article_count:
  "take_value act v ns = Inr ns' \<Longrightarrow> act \<noteq> ArticleCount \<Longrightarrow> article_count ns' = article_count ns"
  by (cases act) (auto split: sum.splits)

lemma consume_article_count:
  "list_all (\<lambda>a. option_string_actions a \<noteq> Some ArticleCount) args \<Longrightarrow>
   consume ns extras args = Parsed ns' \<Longrightarrow> article_count ns' = article_count ns"
proof (induction ns extras args rule: consume.induct)
  case (1 ns extras)
  then show ?case by (auto split: option.splits if_splits)
next
  case (2 ns extras a rest)
  from "2.prems"(1) have a: "option_string_actions a \<noteq> Some ArticleCount"
    and r: "list_all (\<lambda>a. option_string_actions a \<noteq> Some ArticleCount) rest"
    by simp_all
  show ?case
  proof (cases "option_string_actions a")
    case None
    then show ?thesis using "2.IH"(1) r "2.prems"(2) by simp
  next
    case (Some act)
    with a have act: "act \<noteq> ArticleCount" by auto
    from "2.prems"(2) Some obtain v rest' ns1 where
      rest: "rest = v # rest'" and v: "option_string_actions v = None"
      and tv: "take_value act v ns = Inr ns1" and c: "consume ns1 extras rest' = Parsed ns'"
      by (cases act; cases rest) (auto split: option.splits sum.splits)
    from r rest have r': "list_all (\<lambda>a. option_string_actions a \<noteq> Some ArticleCount) rest'"
      by simp
    have "article_count ns' = article_count ns1"
      using "2.IH"(2-) "2.prems"(2) Some rest v tv r' c act by (cases act) auto
    then show ?thesis using take_value_article_count[OF tv act] by simp
  qed
qed

text \<open>
  C9. When \<open>--article_count/-c\<close> is not on the command line, the parsed article
  count is the default 10 (as for \<open>-t test\<close>); yet \<open>-c 10\<close> is refused by the range
  validator, 10 being not strictly below the upper bound 10. The default is not passed
  through the validator, and lies outside the range accepted on the command line.
\<close>

theorem default_count_not_accepted:
  "(list_all (\<lambda>a. a \<noteq> ''-c'' \<and> a \<noteq> ''--article_count'') argv \<and>
      parse_args argv = Some (Parsed ns) \<longrightarrow> article_count ns = 10) \<and>
   parse_args [''-t'', ''test''] =
     Some (Parsed \<lparr>topic = Some [Str ''test''], article_count = 10, timeout = 10\<rparr>) \<and>
   parse_args [''-t'', ''test'', ''-c'', ''10''] =
     Some (Failed (InvalidValue ArticleCount (ValueTooHigh 11 ''10'')))"
proof -
  have "article_count ns = 10"
    if a: "list_all (\<lambda>a. a \<noteq> ''-c'' \<and> a \<noteq> ''--article_count'') argv"
      and p: "parse_args argv = Some (Parsed ns)"
  proof -
    from a have "list_all (\<lambda>a. option_string_actions a \<noteq> Some ArticleCount) argv"
      by (induction argv) (auto simp: option_string_actions_def)
    moreover from p have "consume defaults [] argv = Parsed ns"
      by (auto simp: parse_args_def split: if_splits)
    ultimately have "article_count ns = article_count defaults"
      by (rule consume_article_count)
    then show ?thesis by (simp add: defaults_def)
  qed
  moreover have "parse_args [''-t'', ''test''] =
     Some (Parsed \<lparr>topic = Some [Str ''test''], article_count = 10, timeout = 10\<rparr>)"
    by (simp add: parse_args_def modelled_options test_not_option consume_topic defaults_def
        del: consume.simps(2))
  moreover have "parse_args [''-t'', ''test'', ''-c'', ''10''] =
     Some (Failed (InvalidValue ArticleCount (ValueTooHigh 11 ''10'')))"
    using parse_count [of 10] by (simp add: str_int_examples)
  ultimately show ?thesis by blast
qed

theorem default_count_not_accepted_witness:
  "list_all (\<lambda>a. a \<noteq> ''-c'' \<and> a \<noteq> ''--article_count'') [''-t'', ''a'', ''--timeout'', ''5''] \<and>
   parse_args [''-t'', ''a'', ''--timeout'', ''5''] =
     Some (Parsed \<lparr>topic = Some [Str ''a''], article_count = 10, timeout = 5\<rparr>) \<and>
   article_count \<lparr>topic = Some [Str ''a''], article_count = 10, timeout = 5\<rparr> = 10"
proof -
  have p: "parse_args [''-t'', ''a'', ''--timeout'', ''5''] =
     Some (Parsed \<lparr>topic = Some [Str ''a''], article_count = 10, timeout = 5\<rparr>)"
    by code_simp
  have l: "list_all (\<lambda>a. a \<noteq> ''-c'' \<and> a \<noteq> ''--article_count'') [''-t'', ''a'', ''--timeout'', ''5'']"
    by simp
  show ?thesis
    using default_count_not_accepted
      [of "[''-t'', ''a'', ''--timeout'', ''5'']"
          "\<lparr>topic = Some [Str ''a''], article_count = 10, timeout = 5\<rparr>"] p l
    by simp
qed

section \<open>Runs of the main routine\<close>

lemma main_Parsed:
  "parse_args argv = Some (Parsed args) \<Longrightarrow> main argv environ server = Some (run args environ server)"
  by (simp add: main_def)

text \<open>
  C7. On every run whose arguments parse, with \<open>NEWS_KEY\<close> absent from the
  environment, the main routine prints the fixed message to the error stream and
  leaves with exit status 22; it sends no HTTP request.
\<close>

theorem missing_key_exit_22:
  "parse_args argv = Some (Parsed args) \<Longrightarrow> environ ''NEWS_KEY'' = None \<Longrightarrow>
   main argv environ server = Some ([PrintArgs args, ErrMessage no_key_message], 22) \<and>
   \<not> list_ex is_get [PrintArgs args, ErrMessage no_key_message]"
  by (simp add: main_Parsed run_def)

theorem missing_key_exit_22_witness:
  "parse_args [''-t'', ''test''] =
     Some (Parsed \<lparr>topic = Some [Str ''test''], article_count = 10, timeout = 10\<rparr>) \<and>
   (Map.empty :: string \<rightharpoonup> string) ''NEWS_KEY'' = None \<and>
   main [''-t'', ''test''] Map.empty (\<lambda>_. Response 200 (Some ())) =
     Some ([PrintArgs \<lparr>topic = Some [Str ''test''], article_count = 10, timeout = 10\<rparr>,
            ErrMessage no_key_message], 22)"
proof -
  have p: "parse_args [''-t'', ''test''] =
     Some (Parsed \<lparr>topic = Some [Str ''test''], article_count = 10, timeout = 10\<rparr>)"
    by code_simp
  show ?thesis
    using missing_key_exit_22 [OF p, of Map.empty "\<lambda>_. Response 200 (Some ())"] p by simp
qed

text \<open>
  C10. On every run whose arguments parse, the first effect of the main routine is the
  line "args are ..." with the parsed arguments on standard output, whatever the
  environment holds and before any request; apart from this line, standard output
  receives nothing or the pretty-printed JSON data.
\<close>

theorem args_line_first:
  "parse_args argv = Some (Parsed args) \<Longrightarrow>
   \<exists>rest status.
     main argv environ server = Some (PrintArgs args # rest, status) \<and>
     (filter on_stdout rest = [] \<or> (\<exists>data. filter on_stdout rest = [PrintData data]))"
  by (auto simp: main_Parsed run_def Let_def split: option.splits reply.splits)

theorem args_line_first_witness:
  "parse_args [''-t'', ''test''] =
     Some (Parsed \<lparr>topic = Some [Str ''test''], article_count = 10, timeout = 10\<rparr>) \<and>
   (\<exists>rest status.
      main [''-t'', ''test''] [''NEWS_KEY'' \<mapsto> ''k''] (\<lambda>_. Response 200 (Some ())) =
        Some (PrintArgs \<lparr>topic = Some [Str ''test''], article_count = 10, timeout = 10\<rparr> # rest,
              status) \<and>
      (filter on_stdout rest = [] \<or> (\<exists>data. filter on_stdout rest = [PrintData data])))"
proof -
  have p: "parse_args [''-t'', ''test''] =
     Some (Parsed \<lparr>topic = Some [Str ''test''], article_count = 10, timeout = 10\<rparr>)"
    by code_simp
  show ?thesis
    using args_line_first [OF p, of "[''NEWS_KEY'' \<mapsto> ''k'']" "\<lambda>_. Response 200 (Some ())"] p
    by simp
qed

text \<open>
  C6. The claim: on a run whose arguments parse, with \<open>NEWS_KEY\<close> set, the one GET
  request carries the parsed timeout. The request does go to the fixed endpoint with
  the payload as its parameters, but \<open>requests.get\<close> is called without a timeout: on
  \<open>-t test --timeout 5\<close> the parsed timeout is 5 and the request carries none.
\<close>

theorem timeout_not_passed_to_get:
  "\<exists>rest status.
     main [''-t'', ''test'', ''--timeout'', ''5''] [''NEWS_KEY'' \<mapsto> ''k''] server =
       Some (PrintArgs \<lparr>topic = Some [Str ''test''], article_count = 10, timeout = 5\<rparr> #
             Get BASE_URL [(''q'', ''test''), (''lang'', ''en''), (''country'', ''us''),
                           (''max'', ''10''), (''apikey'', ''k'')] None #
             rest, status)"
proof -
  have p: "parse_args [''-t'', ''test'', ''--timeout'', ''5''] =
     Some (Parsed \<lparr>topic = Some [Str ''test''], article_count = 10, timeout = 5\<rparr>)"
    by code_simp
  have s: "str_int 10 = ''10''" by code_simp
  show ?thesis
    by (auto simp: main_Parsed [OF p] run_def Let_def s split: reply.splits option.splits)
qed

end
